theory Spec2Isabelle
  imports Main "HOL-Library.Sublist"
begin

section \<open>Python strings\<close>

text \<open>
  A Python \<open>str\<close> is a sequence of Unicode code points. A code point is a natural number and
  a string is a list of them, so that the text returned by the language model is not
  restricted to an 8-bit alphabet. \<open>ustr\<close> embeds the ASCII literals of the source.
\<close>

type_synonym codepoint = nat
type_synonym str = "codepoint list"

definition ustr :: "string \<Rightarrow> str" where
  "ustr s = map of_char s"

text \<open>
  \<open>str.isspace\<close> on one character, which is also the class \<open>\s\<close> of \<open>re\<close> on a \<open>str\<close> pattern
  and the set of characters that \<open>str.strip()\<close> removes: U+0009..U+000D, U+001C..U+0020,
  U+0085, U+00A0, U+1680, U+2000..U+200A, U+2028, U+2029, U+202F, U+205F, U+3000.
\<close>

definition isspace :: "codepoint \<Rightarrow> bool" where
  "isspace c \<longleftrightarrow>
     (0x09 \<le> c \<and> c \<le> 0x0D) \<or> (0x1C \<le> c \<and> c \<le> 0x20) \<or> c = 0x85 \<or> c = 0xA0 \<or>
     c = 0x1680 \<or> (0x2000 \<le> c \<and> c \<le> 0x200A) \<or> c = 0x2028 \<or> c = 0x2029 \<or>
     c = 0x202F \<or> c = 0x205F \<or> c = 0x3000"

text \<open>\<open>s.strip()\<close>: leading and trailing whitespace removed.\<close>

definition strip :: "str \<Rightarrow> str" where
  "strip s = rev (dropWhile isspace (rev (dropWhile isspace s)))"

text \<open>
  \<open>s.replace(old, new)\<close>: the occurrences of \<open>old\<close> are found from left to right, without
  overlap, and each is replaced by \<open>new\<close>. With an empty \<open>old\<close> Python puts \<open>new\<close> before
  every character and at the end.
\<close>

function str_replace :: "str \<Rightarrow> str \<Rightarrow> str \<Rightarrow> str" where
  "str_replace old new [] = (if old = [] then new else [])"
| "str_replace old new (c # cs) =
     (if old = [] then new @ c # str_replace old new cs
      else if prefix old (c # cs) then new @ str_replace old new (drop (length old) (c # cs))
      else c # str_replace old new cs)"
  by pat_completeness auto
termination
  by (relation "measure (\<lambda>(old, new, s). length s)") auto

section \<open>The regular expressions of the sanitizer\<close>

text \<open>
  A letter of a pattern compiled with \<open>re.IGNORECASE\<close> matches both of its cases; on \<open>str\<close>
  patterns \<open>s\<close> also matches U+017F (long s), \<open>i\<close> also U+0130 and U+0131, \<open>k\<close> also U+212A.
  Any other ASCII character of a pattern matches itself only. The first argument is the
  pattern's character (ASCII in this program), the second the character of the text.
\<close>

definition ci_variants :: "codepoint \<Rightarrow> codepoint list" where
  "ci_variants p =
     (if 0x41 \<le> p \<and> p \<le> 0x5A then [p, p + 0x20]
      else if 0x61 \<le> p \<and> p \<le> 0x7A then [p, p - 0x20] else [p]) @
     (if p = 0x53 \<or> p = 0x73 then [0x17F] else []) @
     (if p = 0x49 \<or> p = 0x69 then [0x130, 0x131] else []) @
     (if p = 0x4B \<or> p = 0x6B then [0x212A] else [])"

definition ci_char :: "codepoint \<Rightarrow> codepoint \<Rightarrow> bool" where
  "ci_char p c \<longleftrightarrow> c \<in> set (ci_variants p)"

text \<open>The literal \<open>pat\<close> matches, ignoring case, at the start of the text.\<close>

fun ci_prefix :: "str \<Rightarrow> str \<Rightarrow> bool" where
  "ci_prefix [] s = True"
| "ci_prefix (p # ps) [] = False"
| "ci_prefix (p # ps) (c # cs) = (ci_char p c \<and> ci_prefix ps cs)"

text \<open>
  \<open>re.sub(r"^(Question:|SQLQuery:)\s*", "", sql, flags=re.IGNORECASE)\<close>. Without
  \<open>re.MULTILINE\<close> the anchor \<open>^\<close> matches at the start of the string only, so at most one
  match is replaced: a label at position 0 together with all the whitespace after it.
\<close>

definition sub_label :: "str \<Rightarrow> str" where
  "sub_label sql =
     (if ci_prefix (ustr ''Question:'') sql
        then dropWhile isspace (drop (length (ustr ''Question:'')) sql)
      else if ci_prefix (ustr ''SQLQuery:'') sql
        then dropWhile isspace (drop (length (ustr ''SQLQuery:'')) sql)
      else sql)"

text \<open>
  \<open>re.search(r"(SELECT\s.+)", sql, re.IGNORECASE | re.DOTALL)\<close>. \<open>select_here\<close> says that
  the pattern matches at the start of the text: the six letters, one whitespace character and
  at least one more character. With \<open>re.DOTALL\<close> the greedy \<open>.+\<close> runs to the end of the
  string, so group 1 of the leftmost match is the whole rest of the text.
\<close>

definition select_here :: "str \<Rightarrow> bool" where
  "select_here s \<longleftrightarrow>
     ci_prefix (ustr ''SELECT'') s \<and>
     (case drop 6 s of w # d # rest \<Rightarrow> isspace w | _ \<Rightarrow> False)"

fun search_select :: "str \<Rightarrow> str option" where
  "search_select [] = None"
| "search_select (c # cs) = (if select_here (c # cs) then Some (c # cs) else search_select cs)"

section \<open>The sanitizer\<close>

text \<open>The first line of \<open>clean_sql\<close>: the label is removed and the text trimmed.\<close>

definition remove_label :: "str \<Rightarrow> str" where
  "remove_label sql = strip (sub_label sql)"

text \<open>The second line: the code fences, then every \<open>sql\<close>, are removed and the text trimmed.\<close>

definition remove_markers :: "str \<Rightarrow> str" where
  "remove_markers sql = strip (str_replace (ustr ''sql'') [] (str_replace (ustr ''```'') [] sql))"

definition clean_sql :: "str \<Rightarrow> str" where
  "clean_sql sql =
     (let sql = remove_label sql;
          sql = remove_markers sql
      in case search_select sql of
           Some m \<Rightarrow> strip m
         | None \<Rightarrow> sql)"

text \<open>The text that the search runs on: the input after the first two lines.\<close>

definition cleaned :: "str \<Rightarrow> str" where
  "cleaned sql = remove_markers (remove_label sql)"

section \<open>Predicates on texts\<close>

text \<open>A text is trimmed when \<open>strip\<close> has nothing to remove at either end.\<close>

definition stripped :: "str \<Rightarrow> bool" where
  "stripped s \<longleftrightarrow> s = [] \<or> (\<not> isspace (hd s) \<and> \<not> isspace (last s))"

text \<open>Python's \<open>pat in s\<close>: the literal occurs somewhere in the text, case-sensitively.\<close>

fun str_contains :: "str \<Rightarrow> str \<Rightarrow> bool" where
  "str_contains pat [] = (pat = [])"
| "str_contains pat (c # cs) = (prefix pat (c # cs) \<or> str_contains pat cs)"

text \<open>The literal occurs somewhere in the text, ignoring case as \<open>re.IGNORECASE\<close> does.\<close>

fun ci_contains :: "str \<Rightarrow> str \<Rightarrow> bool" where
  "ci_contains pat [] = ci_prefix pat []"
| "ci_contains pat (c # cs) = (ci_prefix pat (c # cs) \<or> ci_contains pat cs)"

text \<open>The text begins with one of the two labels that the first line removes.\<close>

definition has_label :: "str \<Rightarrow> bool" where
  "has_label s \<longleftrightarrow> ci_prefix (ustr ''Question:'') s \<or> ci_prefix (ustr ''SQLQuery:'') s"

text \<open>
  Every occurrence of \<open>SELECT\<close> in the text is followed by a character that is not
  whitespace, or is the end of the text.
\<close>

fun tokens_blocked :: "str \<Rightarrow> bool" where
  "tokens_blocked [] = True"
| "tokens_blocked (c # cs) =
     ((ci_prefix (ustr ''SELECT'') (c # cs) \<longrightarrow>
         (case drop 6 (c # cs) of [] \<Rightarrow> True | w # rest \<Rightarrow> \<not> isspace w)) \<and>
      tokens_blocked cs)"

section \<open>The pipeline\<close>

text \<open>
  An exception is known by the text that \<open>str(e)\<close> gives, which is all the handlers use.
  Every handler of \<open>query_analyzer\<close> is \<open>except Exception\<close>; interrupts of the interpreter
  (\<open>KeyboardInterrupt\<close>, \<open>SystemExit\<close>) are outside the model.
\<close>

datatype exn = Exception (message: str)

text \<open>
  What \<open>sql_chain.invoke\<close> returns is a Python object: a dictionary, a string or anything
  else. The source asks \<open>isinstance(raw_sql_result, dict)\<close> and hands the outcome to
  \<open>clean_sql\<close>, whose \<open>re.sub\<close> raises \<open>TypeError\<close> on anything that is not a string.
\<close>

datatype pyobj = PyStr str | PyDict "(str \<times> pyobj) list" | PyOther

text \<open>The two template texts are constants of the source; the model names them.\<close>

datatype template = SqlPrompt | SummaryPrompt

text \<open>The five \<open>try\<close> blocks, in the order of the source.\<close>

datatype stage = Connection | ModelInit | Generation | Execution | Summarization

text \<open>
  The calls into the libraries, the services and the standard output. Each either raises
  (\<open>Inl\<close>) or returns (\<open>Inr\<close>). A run makes each call at most once with the same arguments
  (the lines printed in one run all differ), so a function of the arguments describes one
  run. The engine, database, model, prompt, chain and data frame are opaque values.
  \<^item> \<open>print\<close> takes the line that is written; it raises when the standard output cannot
    encode the line or is closed.
  \<^item> \<open>obj_str\<close> is the text that an f-string gives for an object that is not a string.
  \<^item> \<open>df_str\<close> is the text with which \<open>print\<close> shows a data frame, \<open>to_string\<close> the method of
    that name.
  \<^item> \<open>re_type_error\<close> is the \<open>TypeError\<close> that \<open>re.sub\<close> raises on an object that is not a
    string; its text varies with the interpreter and the object.
\<close>

record ('engine, 'db, 'llm, 'prompt, 'chain, 'df) externals =
  create_engine :: "str \<Rightarrow> exn + 'engine"
  SQLDatabase :: "'engine \<Rightarrow> exn + 'db"
  GoogleGenerativeAI :: "str \<Rightarrow> str \<Rightarrow> exn + 'llm"
  PromptTemplate :: "template \<Rightarrow> exn + 'prompt"
  from_llm :: "'llm \<Rightarrow> 'db \<Rightarrow> 'prompt \<Rightarrow> exn + 'chain"
  chain_invoke :: "'chain \<Rightarrow> str \<Rightarrow> exn + pyobj"
  obj_str :: "pyobj \<Rightarrow> exn + str"
  re_type_error :: "pyobj \<Rightarrow> exn"
  print :: "str \<Rightarrow> exn + unit"
  read_sql_query :: "str \<Rightarrow> 'engine \<Rightarrow> exn + 'df"
  head :: "'df \<Rightarrow> exn + 'df"
  df_str :: "'df \<Rightarrow> exn + str"
  to_string :: "'df \<Rightarrow> exn + str"
  prompt_format :: "'prompt \<Rightarrow> str \<Rightarrow> str \<Rightarrow> exn + str"
  llm_invoke :: "'llm \<Rightarrow> str \<Rightarrow> exn + str"

subsection \<open>The lines that are printed\<close>

text \<open>
  The f-strings of the \<open>print\<close> calls, with their symbols as code points: U+1FA7A before
  the question, U+1F4D8 before the generated and the sanitized text, U+1F4CA before the
  table, U+26A0 U+FE0F before the message of a failed execution, U+1F4A1 before the answer.
  \<open>print\<close> with two arguments puts a space between them.
\<close>

definition question_line :: "str \<Rightarrow> str" where
  "question_line question = 0x1FA7A # ustr '' Doctor'' @ 0x27 # ustr ''s Question: '' @ question"

definition generated_line :: "str \<Rightarrow> str" where
  "generated_line raw_sql = 0x0A # 0x1F4D8 # ustr '' Generated SQL (raw):'' @ 0x0A # raw_sql"

definition cleaned_line :: "str \<Rightarrow> str" where
  "cleaned_line sql_query = 0x0A # 0x1F4D8 # ustr '' Cleaned SQL:'' @ 0x0A # sql_query"

definition retrieved_line :: "str \<Rightarrow> str" where
  "retrieved_line shown = 0x0A # 0x1F4CA # ustr '' Retrieved Data:'' @ 0x0A # 0x20 # shown"

definition warning_line :: "str \<Rightarrow> str" where
  "warning_line error_msg = 0x0A # 0x26A0 # 0xFE0F # 0x20 # error_msg"

definition answer_line :: "str \<Rightarrow> str" where
  "answer_line final_answer =
     0x0A # 0x1F4A1 # ustr '' LLM'' @ 0x27 # ustr ''s Answer:'' @ 0x0A # final_answer"

text \<open>\<open>f"{raw_sql}"\<close>: a string is taken as it is, another object through its own text.\<close>

definition format_obj ::
  "('engine, 'db, 'llm, 'prompt, 'chain, 'df) externals \<Rightarrow> pyobj \<Rightarrow> exn + str" where
  "format_obj ext v = (case v of PyStr s \<Rightarrow> Inr s | _ \<Rightarrow> obj_str ext v)"

subsection \<open>The bodies of the \<open>try\<close> blocks\<close>

text \<open>The body of the first \<open>try\<close>: the engine, then the database object over it.\<close>

definition connect ::
  "('engine, 'db, 'llm, 'prompt, 'chain, 'df) externals \<Rightarrow> exn + ('engine \<times> 'db)" where
  "connect ext =
     (case create_engine ext (ustr ''sqlite:///survey_results.db'') of
        Inl e \<Rightarrow> Inl e
      | Inr engine \<Rightarrow>
          (case SQLDatabase ext engine of
             Inl e \<Rightarrow> Inl e
           | Inr db \<Rightarrow> Inr (engine, db)))"

text \<open>
  The conditional expression of the third \<open>try\<close>: the entry \<open>"result"\<close> of a dictionary
  (\<open>KeyError\<close>, whose text is the quoted key, when it has none), anything else as it is.
\<close>

definition result_of :: "pyobj \<Rightarrow> exn + pyobj" where
  "result_of raw_sql_result =
     (case raw_sql_result of
        PyDict d \<Rightarrow>
          (case map_of d (ustr ''result'') of
             None \<Rightarrow> Inl (Exception (0x27 # ustr ''result'' @ [0x27]))
           | Some v \<Rightarrow> Inr v)
      | _ \<Rightarrow> Inr raw_sql_result)"

text \<open>
  The body of the third \<open>try\<close>: the chain is invoked, the generated object is read from its
  outcome and printed. A \<open>print\<close> that raises here is caught like a failure of the chain.
\<close>

definition generate ::
  "('engine, 'db, 'llm, 'prompt, 'chain, 'df) externals \<Rightarrow> 'chain \<Rightarrow> str \<Rightarrow> exn + pyobj" where
  "generate ext sql_chain question =
     (case chain_invoke ext sql_chain question of
        Inl e \<Rightarrow> Inl e
      | Inr raw_sql_result \<Rightarrow>
          (case result_of raw_sql_result of
             Inl e \<Rightarrow> Inl e
           | Inr raw_sql \<Rightarrow>
               (case format_obj ext raw_sql of
                  Inl e \<Rightarrow> Inl e
                | Inr shown \<Rightarrow>
                    (case print ext (generated_line shown) of
                       Inl e \<Rightarrow> Inl e
                     | Inr u \<Rightarrow> Inr raw_sql))))"

text \<open>
  The body of the fourth \<open>try\<close>: the query is executed and the first rows of the table are
  printed.
\<close>

definition execute ::
  "('engine, 'db, 'llm, 'prompt, 'chain, 'df) externals \<Rightarrow> str \<Rightarrow> 'engine \<Rightarrow> exn + 'df" where
  "execute ext sql_query engine =
     (case read_sql_query ext sql_query engine of
        Inl e \<Rightarrow> Inl e
      | Inr result_df \<Rightarrow>
          (case head ext result_df of
             Inl e \<Rightarrow> Inl e
           | Inr first_rows \<Rightarrow>
               (case df_str ext first_rows of
                  Inl e \<Rightarrow> Inl e
                | Inr shown \<Rightarrow>
                    (case print ext (retrieved_line shown) of
                       Inl e \<Rightarrow> Inl e
                     | Inr u \<Rightarrow> Inr result_df))))"

text \<open>
  The body of the last \<open>try\<close>: the table is rendered, the prompt formatted, the model asked
  and its answer printed.
\<close>

definition summarize ::
  "('engine, 'db, 'llm, 'prompt, 'chain, 'df) externals \<Rightarrow> 'llm \<Rightarrow> 'prompt \<Rightarrow> str \<Rightarrow> 'df \<Rightarrow>
     exn + str" where
  "summarize ext llm summary_prompt question result_df =
     (case to_string ext result_df of
        Inl e \<Rightarrow> Inl e
      | Inr data \<Rightarrow>
          (case prompt_format ext summary_prompt question data of
             Inl e \<Rightarrow> Inl e
           | Inr p \<Rightarrow>
               (case llm_invoke ext llm p of
                  Inl e \<Rightarrow> Inl e
                | Inr final_answer \<Rightarrow>
                    (case print ext (answer_line final_answer) of
                       Inl e \<Rightarrow> Inl e
                     | Inr u \<Rightarrow> Inr final_answer))))"

subsection \<open>The function\<close>

text \<open>
  What every handler ends with: the line is printed, then the tuple returned. Nothing
  catches inside a handler, so a \<open>print\<close> that raises there reaches the caller.
\<close>

definition print_and_return ::
  "('engine, 'db, 'llm, 'prompt, 'chain, 'df) externals \<Rightarrow> str \<Rightarrow> 'r \<Rightarrow> exn + 'r" where
  "print_and_return ext line r = (case print ext line of Inl e \<Rightarrow> Inl e | Inr u \<Rightarrow> Inr r)"

text \<open>
  \<open>query_analyzer\<close>, statement by statement. \<open>Inl\<close> is an exception that reaches the caller,
  \<open>Inr\<close> the returned tuple. Beside the tuple the model records which handler returned it
  (\<open>None\<close> for the last, normal \<open>return\<close>): the source does not return that, it is kept to
  state which stage failed. The two \<open>PromptTemplate\<close> constructions,
  \<open>SQLDatabaseChain.from_llm\<close>, the \<open>print\<close> of the question, the call of \<open>clean_sql\<close> and the
  \<open>print\<close> of its result stand outside every \<open>try\<close>, so what they raise is not caught.
\<close>

definition query_analyzer_staged ::
  "('engine, 'db, 'llm, 'prompt, 'chain, 'df) externals \<Rightarrow> str \<Rightarrow> str \<Rightarrow>
     exn + (stage option \<times> str \<times> str option \<times> 'df option)" where
  "query_analyzer_staged ext question api_key =
     (case connect ext of
        Inl e \<Rightarrow>
          (let error_msg = ustr ''Error connecting to database: '' @ message e
           in print_and_return ext error_msg (Some Connection, error_msg, None, None))
      | Inr (engine, db) \<Rightarrow>
     (case GoogleGenerativeAI ext api_key (ustr ''gemini-2.0-flash'') of
        Inl e \<Rightarrow>
          (let error_msg =
             ustr ''Error initializing LLM. Please check your API key. Details: '' @ message e
           in print_and_return ext error_msg (Some ModelInit, error_msg, None, None))
      | Inr llm \<Rightarrow>
     (case PromptTemplate ext SqlPrompt of
        Inl e \<Rightarrow> Inl e
      | Inr custom_prompt \<Rightarrow>
     (case from_llm ext llm db custom_prompt of
        Inl e \<Rightarrow> Inl e
      | Inr sql_chain \<Rightarrow>
     (case print ext (question_line question) of
        Inl e \<Rightarrow> Inl e
      | Inr u \<Rightarrow>
     (case generate ext sql_chain question of
        Inl e \<Rightarrow>
          (let error_msg = ustr ''Error during SQL generation: '' @ message e
           in print_and_return ext error_msg (Some Generation, error_msg, None, None))
      | Inr raw_sql \<Rightarrow>
     (case raw_sql of
        PyDict d \<Rightarrow> Inl (re_type_error ext raw_sql)
      | PyOther \<Rightarrow> Inl (re_type_error ext raw_sql)
      | PyStr raw \<Rightarrow>
     (let sql_query = clean_sql raw in
     (case print ext (cleaned_line sql_query) of
        Inl e \<Rightarrow> Inl e
      | Inr u \<Rightarrow>
     (case execute ext sql_query engine of
        Inl e \<Rightarrow>
          (let error_msg =
             ustr ''SQL Execution Error: '' @ message e @ 0x0A # ustr ''Attempted Query: '' @
               sql_query
           in print_and_return ext (warning_line error_msg)
                (Some Execution, error_msg, Some sql_query, None))
      | Inr result_df \<Rightarrow>
     (case PromptTemplate ext SummaryPrompt of
        Inl e \<Rightarrow> Inl e
      | Inr summary_prompt \<Rightarrow>
     (case summarize ext llm summary_prompt question result_df of
        Inl e \<Rightarrow>
          (let error_msg = ustr ''Error during summarization: '' @ message e
           in print_and_return ext error_msg
                (Some Summarization, error_msg, Some sql_query, Some result_df))
      | Inr final_answer \<Rightarrow>
          Inr (None, final_answer, Some sql_query, Some result_df)))))))))))))"

text \<open>What the caller receives: the tuple alone, or the exception.\<close>

definition query_analyzer ::
  "('engine, 'db, 'llm, 'prompt, 'chain, 'df) externals \<Rightarrow> str \<Rightarrow> str \<Rightarrow>
     exn + (str \<times> str option \<times> 'df option)" where
  "query_analyzer ext question api_key = map_sum id snd (query_analyzer_staged ext question api_key)"

subsection \<open>Stages and their failures\<close>

text \<open>The fixed text with which the handler of each stage starts its message.\<close>

fun stage_prefix :: "stage \<Rightarrow> str" where
  "stage_prefix Connection = ustr ''Error connecting to database: ''"
| "stage_prefix ModelInit = ustr ''Error initializing LLM. Please check your API key. Details: ''"
| "stage_prefix Generation = ustr ''Error during SQL generation: ''"
| "stage_prefix Execution = ustr ''SQL Execution Error: ''"
| "stage_prefix Summarization = ustr ''Error during summarization: ''"

text \<open>
  The line that the handler of a stage prints for its message: the message itself, behind
  the warning sign for a failed execution.
\<close>

fun handler_line :: "stage \<Rightarrow> str \<Rightarrow> str" where
  "handler_line Execution error_msg = warning_line error_msg"
| "handler_line s error_msg = error_msg"

text \<open>
  The stage at which a run fails, and the exception: every statement before the stage's
  \<open>try\<close> returned and the body of that \<open>try\<close> raised \<open>e\<close>. This is stated on the calls
  themselves, independently of what \<open>query_analyzer\<close> returns.
\<close>

fun fails_at ::
  "('engine, 'db, 'llm, 'prompt, 'chain, 'df) externals \<Rightarrow> str \<Rightarrow> str \<Rightarrow> stage \<Rightarrow> exn \<Rightarrow> bool" where
  "fails_at ext question api_key Connection e \<longleftrightarrow> connect ext = Inl e"
| "fails_at ext question api_key ModelInit e \<longleftrightarrow>
     (\<exists>engine db. connect ext = Inr (engine, db) \<and>
        GoogleGenerativeAI ext api_key (ustr ''gemini-2.0-flash'') = Inl e)"
| "fails_at ext question api_key Generation e \<longleftrightarrow>
     (\<exists>engine db llm custom_prompt sql_chain.
        connect ext = Inr (engine, db) \<and>
        GoogleGenerativeAI ext api_key (ustr ''gemini-2.0-flash'') = Inr llm \<and>
        PromptTemplate ext SqlPrompt = Inr custom_prompt \<and>
        from_llm ext llm db custom_prompt = Inr sql_chain \<and>
        print ext (question_line question) = Inr () \<and>
        generate ext sql_chain question = Inl e)"
| "fails_at ext question api_key Execution e \<longleftrightarrow>
     (\<exists>engine db llm custom_prompt sql_chain raw_sql.
        connect ext = Inr (engine, db) \<and>
        GoogleGenerativeAI ext api_key (ustr ''gemini-2.0-flash'') = Inr llm \<and>
        PromptTemplate ext SqlPrompt = Inr custom_prompt \<and>
        from_llm ext llm db custom_prompt = Inr sql_chain \<and>
        print ext (question_line question) = Inr () \<and>
        generate ext sql_chain question = Inr (PyStr raw_sql) \<and>
        print ext (cleaned_line (clean_sql raw_sql)) = Inr () \<and>
        execute ext (clean_sql raw_sql) engine = Inl e)"
| "fails_at ext question api_key Summarization e \<longleftrightarrow>
     (\<exists>engine db llm custom_prompt sql_chain raw_sql result_df summary_prompt.
        connect ext = Inr (engine, db) \<and>
        GoogleGenerativeAI ext api_key (ustr ''gemini-2.0-flash'') = Inr llm \<and>
        PromptTemplate ext SqlPrompt = Inr custom_prompt \<and>
        from_llm ext llm db custom_prompt = Inr sql_chain \<and>
        print ext (question_line question) = Inr () \<and>
        generate ext sql_chain question = Inr (PyStr raw_sql) \<and>
        print ext (cleaned_line (clean_sql raw_sql)) = Inr () \<and>
        execute ext (clean_sql raw_sql) engine = Inr result_df \<and>
        PromptTemplate ext SummaryPrompt = Inr summary_prompt \<and>
        summarize ext llm summary_prompt question result_df = Inl e)"

text \<open>
  The run reaches the call of \<open>clean_sql\<close>, which gives \<open>sql_query\<close>: every statement before
  it returned and the generated object is a string.
\<close>

definition sanitized ::
  "('engine, 'db, 'llm, 'prompt, 'chain, 'df) externals \<Rightarrow> str \<Rightarrow> str \<Rightarrow> str \<Rightarrow> bool" where
  "sanitized ext question api_key sql_query \<longleftrightarrow>
     (\<exists>engine db llm custom_prompt sql_chain raw_sql.
        connect ext = Inr (engine, db) \<and>
        GoogleGenerativeAI ext api_key (ustr ''gemini-2.0-flash'') = Inr llm \<and>
        PromptTemplate ext SqlPrompt = Inr custom_prompt \<and>
        from_llm ext llm db custom_prompt = Inr sql_chain \<and>
        print ext (question_line question) = Inr () \<and>
        generate ext sql_chain question = Inr (PyStr raw_sql) \<and>
        sql_query = clean_sql raw_sql)"

text \<open>
  The message that the handler of a stage builds from the exception; the handler of the
  execution adds the query that was attempted.
\<close>

fun error_msg :: "stage \<Rightarrow> exn \<Rightarrow> str \<Rightarrow> str" where
  "error_msg Execution e sql_query =
     stage_prefix Execution @ message e @ 0x0A # ustr ''Attempted Query: '' @ sql_query"
| "error_msg s e sql_query = stage_prefix s @ message e"

subsection \<open>Stand-ins\<close>

text \<open>
  A standard output encoded in UTF-8: it takes every line but one that holds a surrogate
  code point (U+D800..U+DFFF), on which \<open>print\<close> raises \<open>UnicodeEncodeError\<close> (its text is
  shortened here).
\<close>

definition utf8_stdout :: "str \<Rightarrow> exn + unit" where
  "utf8_stdout line =
     (if list_ex (\<lambda>c. 0xD800 \<le> c \<and> c \<le> 0xDFFF) line
      then Inl (Exception (ustr ''surrogates not allowed''))
      else Inr ())"

text \<open>
  A standard output encoded in ISO 8859-1 (\<open>PYTHONIOENCODING=latin-1\<close>): \<open>print\<close> raises
  \<open>UnicodeEncodeError\<close> on a line with a code point above U+00FF (text shortened).
\<close>

definition latin1_stdout :: "str \<Rightarrow> exn + unit" where
  "latin1_stdout line =
     (if list_ex (\<lambda>c. 0xFF < c) line
      then Inl (Exception (ustr ''ordinal not in range(256)''))
      else Inr ())"

text \<open>
  Stand-ins for the libraries, to run the pipeline on concrete inputs: every call succeeds,
  the chain answers with the text \<open>raw\<close>, the data frame is the query it came from, the
  summary is the prompt it was asked with, and the standard output is encoded in UTF-8.
\<close>

definition all_ok :: "str \<Rightarrow> (unit, unit, unit, unit, unit, str) externals" where
  "all_ok raw =
     \<lparr>create_engine = (\<lambda>url. Inr ()),
      SQLDatabase = (\<lambda>engine. Inr ()),
      GoogleGenerativeAI = (\<lambda>key model. Inr ()),
      PromptTemplate = (\<lambda>t. Inr ()),
      from_llm = (\<lambda>llm db prompt. Inr ()),
      chain_invoke = (\<lambda>chain q. Inr (PyDict [(ustr ''query'', PyStr q), (ustr ''result'', PyStr raw)])),
      obj_str = (\<lambda>v. Inr (ustr ''<object>'')),
      re_type_error = (\<lambda>v. Exception (ustr ''expected string or bytes-like object'')),
      print = utf8_stdout,
      read_sql_query = (\<lambda>sql engine. Inr sql),
      head = (\<lambda>df. Inr df),
      df_str = (\<lambda>df. Inr df),
      to_string = (\<lambda>df. Inr df),
      prompt_format = (\<lambda>prompt q data. Inr (q @ data)),
      llm_invoke = (\<lambda>llm p. Inr p)\<rparr>"

section \<open>Evaluation on concrete texts\<close>

lemmas sanitizer_defs =
  clean_sql_def cleaned_def remove_label_def remove_markers_def sub_label_def strip_def
  ustr_def select_here_def isspace_def ci_char_def ci_variants_def has_label_def

lemmas pipeline_defs =
  query_analyzer_def query_analyzer_staged_def print_and_return_def connect_def generate_def
  result_of_def format_obj_def execute_def summarize_def all_ok_def utf8_stdout_def latin1_stdout_def
  Let_def

lemmas line_defs =
  question_line_def generated_line_def cleaned_line_def retrieved_line_def warning_line_def
  answer_line_def

section \<open>Trimming\<close>

lemma strip_stripped: "stripped s \<Longrightarrow> strip s = s"
proof (cases "s = []")
  case True
  then show ?thesis by (simp add: strip_def)
next
  case False
  assume "stripped s"
  with False have h: "\<not> isspace (hd s)" and l: "\<not> isspace (last s)"
    by (simp_all add: stripped_def)
  from False h have a: "dropWhile isspace s = s"
    by (simp add: dropWhile_eq_self_iff)
  from False l have "dropWhile isspace (rev s) = rev s"
    by (simp add: dropWhile_eq_self_iff hd_rev)
  with a show ?thesis by (simp add: strip_def)
qed

lemma last_dropWhile: "dropWhile P xs \<noteq> [] \<Longrightarrow> last (dropWhile P xs) = last xs"
  by (induction xs) (auto split: if_splits)

lemma stripped_strip: "stripped (strip s)"
proof (cases "strip s = []")
  case True
  then show ?thesis by (simp add: stripped_def)
next
  case False
  define t where "t = dropWhile isspace s"
  define r where "r = dropWhile isspace (rev t)"
  have s: "strip s = rev r" by (simp add: strip_def r_def t_def)
  with False have r: "r \<noteq> []" by simp
  then have t: "t \<noteq> []" by (auto simp: r_def)
  from r have "\<not> isspace (hd r)" unfolding r_def by (rule hd_dropWhile)
  then have l: "\<not> isspace (last (strip s))" using r by (simp add: s last_rev)
  from r have "last r = last (rev t)" unfolding r_def by (rule last_dropWhile)
  also have "\<dots> = hd t" using t by (simp add: last_rev)
  finally have "hd (strip s) = hd t" using r by (simp add: s hd_rev)
  moreover from t have "\<not> isspace (hd t)" unfolding t_def by (rule hd_dropWhile)
  ultimately show ?thesis using l by (simp add: stripped_def)
qed

lemma strip_idem: "strip (strip s) = strip s"
  by (rule strip_stripped) (rule stripped_strip)

lemma stripped_suffix:
  assumes "stripped s" and "suffix m s" and "m \<noteq> []" and "\<not> isspace (hd m)"
  shows "stripped m"
proof -
  from assms(2) obtain xs where s: "s = xs @ m" by (auto simp: suffix_def)
  with assms(3) have "last m = last s" and "s \<noteq> []" by simp_all
  with assms(1,4) show ?thesis by (simp add: stripped_def)
qed

section \<open>The search for the statement\<close>

lemma select_here_first: "select_here m \<Longrightarrow> m \<noteq> [] \<and> \<not> isspace (hd m)"
  by (cases m) (auto simp: select_here_def ustr_def ci_char_def ci_variants_def isspace_def)

lemma search_select_Some: "search_select s = Some m \<Longrightarrow> suffix m s \<and> select_here m"
  by (induction s) (auto split: if_splits simp: suffix_Cons)

lemma search_select_first:
  "select_here (drop i s) \<Longrightarrow> \<forall>j<i. \<not> select_here (drop j s) \<Longrightarrow> search_select s = Some (drop i s)"
proof (induction s arbitrary: i)
  case Nil
  then show ?case by (simp add: select_here_def ustr_def)
next
  case (Cons c cs)
  show ?case
  proof (cases i)
    case 0
    with Cons.prems(1) show ?thesis by simp
  next
    case (Suc k)
    with Cons.prems(2) have n: "\<not> select_here (c # cs)" by force
    from Suc Cons.prems(1) have a: "select_here (drop k cs)" by simp
    have "\<forall>j<k. \<not> select_here (drop j cs)"
    proof (intro allI impI)
      fix j assume "j < k"
      then have "Suc j < i" using Suc by simp
      with Cons.prems(2) have "\<not> select_here (drop (Suc j) (c # cs))" by blast
      then show "\<not> select_here (drop j cs)" by simp
    qed
    with a have "search_select cs = Some (drop k cs)" by (rule Cons.IH)
    with n Suc show ?thesis by simp
  qed
qed

lemma search_select_None: "search_select s = None \<longleftrightarrow> (\<forall>i. \<not> select_here (drop i s))"
proof (induction s)
  case Nil
  then show ?case by (simp add: select_here_def ustr_def)
next
  case (Cons c cs)
  have "(\<forall>i. \<not> select_here (drop i (c # cs))) \<longleftrightarrow>
        \<not> select_here (c # cs) \<and> (\<forall>i. \<not> select_here (drop i cs))"
  proof
    assume a: "\<forall>i. \<not> select_here (drop i (c # cs))"
    then have "\<not> select_here (drop 0 (c # cs))" by blast
    moreover have "\<forall>i. \<not> select_here (drop i cs)"
    proof
      fix i from a have "\<not> select_here (drop (Suc i) (c # cs))" by blast
      then show "\<not> select_here (drop i cs)" by simp
    qed
    ultimately show "\<not> select_here (c # cs) \<and> (\<forall>i. \<not> select_here (drop i cs))" by simp
  next
    assume a: "\<not> select_here (c # cs) \<and> (\<forall>i. \<not> select_here (drop i cs))"
    show "\<forall>i. \<not> select_here (drop i (c # cs))"
    proof
      fix i show "\<not> select_here (drop i (c # cs))" using a by (cases i) simp_all
    qed
  qed
  with Cons.IH show ?case by simp
qed

lemma search_select_absent: "\<not> ci_contains (ustr ''SELECT'') s \<Longrightarrow> search_select s = None"
  by (induction s) (auto simp: select_here_def)

lemma search_select_blocked: "tokens_blocked s \<Longrightarrow> search_select s = None"
  by (induction s) (auto simp: select_here_def split: list.splits)

section \<open>The predicates, by position\<close>

text \<open>
  The recursive predicates say what their descriptions say: an occurrence is a position at
  which the literal starts, and a match of the search pattern at position \<open>i\<close> is the token
  there, a whitespace character at \<open>i + 6\<close> and a character at \<open>i + 7\<close>.
\<close>

lemma ex_upto_Suc: "(\<exists>i\<le>Suc n. P i) \<longleftrightarrow> P 0 \<or> (\<exists>i\<le>n. P (Suc i))"
proof
  assume "\<exists>i\<le>Suc n. P i"
  then obtain i where i: "i \<le> Suc n" "P i" by blast
  then show "P 0 \<or> (\<exists>i\<le>n. P (Suc i))" by (cases i) auto
next
  assume "P 0 \<or> (\<exists>i\<le>n. P (Suc i))"
  then show "\<exists>i\<le>Suc n. P i" by auto
qed

lemma all_below_Suc: "(\<forall>i<Suc n. P i) \<longleftrightarrow> P 0 \<and> (\<forall>i<n. P (Suc i))"
proof
  assume a: "\<forall>i<Suc n. P i"
  then show "P 0 \<and> (\<forall>i<n. P (Suc i))" by auto
next
  assume a: "P 0 \<and> (\<forall>i<n. P (Suc i))"
  show "\<forall>i<Suc n. P i"
  proof (intro allI impI)
    fix i assume "i < Suc n"
    with a show "P i" by (cases i) auto
  qed
qed

lemma str_contains_position: "str_contains pat s \<longleftrightarrow> (\<exists>i\<le>length s. prefix pat (drop i s))"
  by (induction s) (simp_all add: ex_upto_Suc)

lemma ci_contains_position: "ci_contains pat s \<longleftrightarrow> (\<exists>i\<le>length s. ci_prefix pat (drop i s))"
  by (induction s) (simp_all add: ex_upto_Suc)

lemma tokens_blocked_position:
  "tokens_blocked s \<longleftrightarrow>
     (\<forall>i<length s. ci_prefix (ustr ''SELECT'') (drop i s) \<longrightarrow>
        length s \<le> i + 6 \<or> \<not> isspace (s ! (i + 6)))"
proof (induction s)
  case Nil
  then show ?case by simp
next
  case (Cons c cs)
  have "(case drop 6 (c # cs) of [] \<Rightarrow> True | w # rest \<Rightarrow> \<not> isspace w) \<longleftrightarrow>
        length (c # cs) \<le> 6 \<or> \<not> isspace ((c # cs) ! 6)"
  proof (cases "drop 6 (c # cs)")
    case Nil
    then show ?thesis by simp
  next
    case (Cons w rest)
    then have "(c # cs) ! 6 = w" by (rule nth_via_drop)
    moreover from Cons have "\<not> length (c # cs) \<le> 6" by auto
    ultimately show ?thesis using Cons by simp
  qed
  with Cons.IH show ?case
    by (simp add: all_below_Suc [of "length cs"] add.commute)
qed

lemma select_here_position:
  "select_here (drop i s) \<longleftrightarrow>
     ci_prefix (ustr ''SELECT'') (drop i s) \<and> i + 7 < length s \<and> isspace (s ! (i + 6))"
proof -
  have "(case drop 6 (drop i s) of w # d # rest \<Rightarrow> isspace w | _ \<Rightarrow> False) \<longleftrightarrow>
        i + 7 < length s \<and> isspace (s ! (i + 6))"
  proof (cases "drop (i + 6) s")
    case Nil
    then show ?thesis by (simp add: add.commute)
  next
    case (Cons w r)
    then have w: "s ! (i + 6) = w" by (rule nth_via_drop)
    from Cons have l: "i + 6 < length s" by (metis drop_eq_Nil not_le list.distinct(1))
    from Cons have "length r = length s - (i + 6) - 1"
      by (metis length_drop length_Cons diff_Suc_1)
    with Cons w l show ?thesis by (cases r) (auto simp: add.commute)
  qed
  then show ?thesis by (simp add: select_here_def)
qed

section \<open>Replacing\<close>

lemma str_replace_absent:
  "old \<noteq> [] \<Longrightarrow> \<not> str_contains old s \<Longrightarrow> str_replace old new s = s"
  by (induction s) auto



section \<open>The sanitizer on trimmed texts\<close>

lemma sub_label_none: "\<not> has_label s \<Longrightarrow> sub_label s = s"
  by (simp add: has_label_def sub_label_def)

lemma stripped_cleaned: "stripped (cleaned sql)"
  by (simp add: cleaned_def remove_markers_def stripped_strip)

lemma clean_sql_cases:
  "clean_sql sql = (case search_select (cleaned sql) of Some m \<Rightarrow> m | None \<Rightarrow> cleaned sql)"
proof (cases "search_select (cleaned sql)")
  case None
  then show ?thesis by (simp add: clean_sql_def cleaned_def)
next
  case (Some m)
  then have "suffix m (cleaned sql)" and h: "select_here m"
    using search_select_Some by blast+
  with stripped_cleaned [of sql] have "stripped m"
    using select_here_first [OF h] by (auto intro: stripped_suffix)
  then have "strip m = m" by (rule strip_stripped)
  with Some show ?thesis by (simp add: clean_sql_def cleaned_def)
qed

lemma stripped_clean_sql: "stripped (clean_sql x)"
proof (cases "search_select (cleaned x)")
  case None
  then show ?thesis by (simp add: clean_sql_cases stripped_cleaned)
next
  case (Some m)
  then have "suffix m (cleaned x)" and h: "select_here m"
    using search_select_Some by blast+
  with stripped_cleaned [of x] have "stripped m"
    using select_here_first [OF h] by (auto intro: stripped_suffix)
  with Some show ?thesis by (simp add: clean_sql_cases)
qed

lemma search_select_clean_sql:
  "search_select (clean_sql x) = None \<or> search_select (clean_sql x) = Some (clean_sql x)"
proof (cases "search_select (cleaned x)")
  case None
  then show ?thesis by (simp add: clean_sql_cases)
next
  case (Some m)
  then have h: "select_here m" using search_select_Some by blast
  then have "search_select m = Some m"
    using select_here_first [OF h] by (cases m) simp_all
  with Some show ?thesis by (simp add: clean_sql_cases)
qed

lemma cleaned_fixed:
  assumes "stripped s" and "\<not> has_label s"
    and "\<not> str_contains (ustr ''```'') s" and "\<not> str_contains (ustr ''sql'') s"
  shows "cleaned s = s"
proof -
  have "remove_label s = s"
    using assms(1,2) by (simp add: remove_label_def sub_label_none strip_stripped)
  moreover have "str_replace (ustr ''```'') [] s = s"
    using assms(3) by (intro str_replace_absent) (simp_all add: ustr_def)
  moreover have "str_replace (ustr ''sql'') [] s = s"
    using assms(4) by (intro str_replace_absent) (simp_all add: ustr_def)
  ultimately show ?thesis
    using assms(1) by (simp add: cleaned_def remove_markers_def strip_stripped)
qed


section \<open>The sanitizer: examples\<close>

text \<open>
  C8. The two end-to-end examples: the fenced answer with the two averages is sanitized to
  the bare statement, and the answer that starts with the label \<open>SQLQuery:\<close> loses the
  label.
\<close>

theorem clean_sql_examples:
  "clean_sql (ustr (''```sql'' @ [CHR 0x0A] @
       ''SELECT AVG(PRET_SCORE), AVG(POSTT_SCORE) FROM Sheet2;'' @ [CHR 0x0A] @ ''```'')) =
     ustr ''SELECT AVG(PRET_SCORE), AVG(POSTT_SCORE) FROM Sheet2;'' \<and>
   clean_sql (ustr ''SQLQuery: SELECT * FROM Sheet1 WHERE Question_no = 5'') =
     ustr ''SELECT * FROM Sheet1 WHERE Question_no = 5''"
  by (simp add: sanitizer_defs)

section \<open>The sanitizer: the branch with a match\<close>

text \<open>
  C1, as amended. When the text left after the first two lines has, at position \<open>i\<close>, a
  \<open>SELECT\<close> (in any case) followed by a whitespace character and at least one more character,
  and has none before \<open>i\<close>, the sanitizer returns that text from position \<open>i\<close> to its end,
  and the result is already trimmed.
\<close>

theorem clean_sql_from_first_select:
  assumes "select_here (drop i (cleaned sql))"
    and "\<forall>j<i. \<not> select_here (drop j (cleaned sql))"
  shows "clean_sql sql = drop i (cleaned sql) \<and> strip (clean_sql sql) = clean_sql sql"
proof -
  from assms have "search_select (cleaned sql) = Some (drop i (cleaned sql))"
    by (rule search_select_first)
  then have r: "clean_sql sql = drop i (cleaned sql)"
    by (simp add: clean_sql_cases)
  from select_here_first [OF assms(1)]
  have "drop i (cleaned sql) \<noteq> []" and "\<not> isspace (hd (drop i (cleaned sql)))"
    by simp_all
  with stripped_cleaned suffix_drop have "stripped (drop i (cleaned sql))"
    by (rule stripped_suffix)
  with r show ?thesis by (simp add: strip_stripped)
qed

text \<open>
  An instance: the statement starts at position 3 of \<open>ok SELECT 1\<close>.
\<close>

theorem clean_sql_from_first_select_witness:
  "select_here (drop 3 (cleaned (ustr ''ok SELECT 1''))) \<and>
   clean_sql (ustr ''ok SELECT 1'') = drop 3 (cleaned (ustr ''ok SELECT 1'')) \<and>
   strip (clean_sql (ustr ''ok SELECT 1'')) = clean_sql (ustr ''ok SELECT 1'')"
proof -
  have c: "cleaned (ustr ''ok SELECT 1'') = ustr ''ok SELECT 1''"
    by (simp add: sanitizer_defs)
  have h1: "select_here (drop 3 (cleaned (ustr ''ok SELECT 1'')))"
    unfolding c by (simp add: sanitizer_defs)
  have h2: "\<forall>j<3. \<not> select_here (drop j (cleaned (ustr ''ok SELECT 1'')))"
    unfolding c by (simp add: sanitizer_defs numeral_3_eq_3 less_Suc_eq)
  from h1 clean_sql_from_first_select [OF h1 h2] show ?thesis by (intro conjI) blast+
qed

text \<open>
  A token alone is not enough. The texts \<open>x SELECT(1)\<close> and \<open>x SELECT\<close> contain
  \<open>SELECT\<close>, but no whitespace with a further character follows it: the search finds
  nothing, the text comes back whole, and what is returned does not start at the token.
\<close>

theorem clean_sql_select_counterexample:
  "ci_contains (ustr ''SELECT'') (ustr ''x SELECT(1)'') \<and>
   clean_sql (ustr ''x SELECT(1)'') = ustr ''x SELECT(1)'' \<and>
   \<not> ci_prefix (ustr ''SELECT'') (clean_sql (ustr ''x SELECT(1)'')) \<and>
   ci_contains (ustr ''SELECT'') (ustr ''x SELECT'') \<and>
   clean_sql (ustr ''x SELECT'') = ustr ''x SELECT'' \<and>
   \<not> ci_prefix (ustr ''SELECT'') (clean_sql (ustr ''x SELECT''))"
  by (simp add: sanitizer_defs)

section \<open>The sanitizer: the branch without a match\<close>

text \<open>
  C4, as amended. When the text left after the first two lines contains no \<open>SELECT\<close> (in
  any case), the sanitizer returns exactly that text: the input with the label and the
  markers removed, trimmed, and nothing else changed.
\<close>

theorem clean_sql_without_select:
  assumes "\<not> ci_contains (ustr ''SELECT'') (cleaned sql)"
  shows "clean_sql sql = cleaned sql"
  using search_select_absent [OF assms] by (simp add: clean_sql_cases)

text \<open>
  An instance: a fenced \<open>DELETE\<close> with a label.
\<close>

theorem clean_sql_without_select_witness:
  "\<not> ci_contains (ustr ''SELECT'') (cleaned (ustr ''SQLQuery: ```sql DELETE FROM Sheet1```'')) \<and>
   clean_sql (ustr ''SQLQuery: ```sql DELETE FROM Sheet1```'') =
     cleaned (ustr ''SQLQuery: ```sql DELETE FROM Sheet1```'') \<and>
   cleaned (ustr ''SQLQuery: ```sql DELETE FROM Sheet1```'') = ustr ''DELETE FROM Sheet1''"
proof -
  have c: "cleaned (ustr ''SQLQuery: ```sql DELETE FROM Sheet1```'') = ustr ''DELETE FROM Sheet1''"
    by (simp add: sanitizer_defs)
  have h: "\<not> ci_contains (ustr ''SELECT'') (cleaned (ustr ''SQLQuery: ```sql DELETE FROM Sheet1```''))"
    unfolding c by (simp add: sanitizer_defs)
  from h c clean_sql_without_select [OF h] show ?thesis by (intro conjI)
qed

text \<open>
  The condition is on the text after the first two lines, not on the input: removing a
  code fence can join the two halves of a token. The input \<open>x SEL```ECT 1\<close> contains no
  \<open>SELECT\<close>, the text after the removal does, and the part before it is cut off.
\<close>

theorem clean_sql_without_select_counterexample:
  "\<not> ci_contains (ustr ''SELECT'') (ustr ''x SEL```ECT 1'') \<and>
   cleaned (ustr ''x SEL```ECT 1'') = ustr ''x SELECT 1'' \<and>
   clean_sql (ustr ''x SEL```ECT 1'') = ustr ''SELECT 1''"
  by (simp add: sanitizer_defs)

text \<open>
  C10, as amended. The search only matches a \<open>SELECT\<close> that is followed by a whitespace
  character and at least one more character. When, in the text left after the first two
  lines, every \<open>SELECT\<close> is followed by a character that is not whitespace or ends the
  text, nothing matches and the sanitizer returns that text.
\<close>

theorem search_select_needs_space:
  "(search_select s = Some m \<longrightarrow>
      ci_prefix (ustr ''SELECT'') m \<and> 8 \<le> length m \<and> isspace (m ! 6)) \<and>
   (tokens_blocked (cleaned sql) \<longrightarrow>
      search_select (cleaned sql) = None \<and> clean_sql sql = cleaned sql)"
proof (intro conjI impI)
  assume "search_select s = Some m"
  then have h: "select_here m" using search_select_Some by blast
  then show "ci_prefix (ustr ''SELECT'') m" by (simp add: select_here_def)
  from h obtain w d rest where d: "drop 6 m = w # d # rest" and w: "isspace w"
    by (auto simp: select_here_def split: list.splits)
  from d have "length (drop 6 m) = Suc (Suc (length rest))" by simp
  then show "8 \<le> length m" by simp
  from d have "(drop 6 m) ! 0 = w" by simp
  then have "m ! 6 = w" using \<open>8 \<le> length m\<close> by simp
  with w show "isspace (m ! 6)" by simp
next
  assume b: "tokens_blocked (cleaned sql)"
  then show n: "search_select (cleaned sql) = None" by (rule search_select_blocked)
  then show "clean_sql sql = cleaned sql" by (simp add: clean_sql_cases)
qed

text \<open>
  An instance of each half: the match in \<open>x SELECT 1\<close>, and \<open>SELECT(1)\<close>, which comes
  back unchanged.
\<close>

theorem search_select_needs_space_witness:
  "search_select (ustr ''x SELECT 1'') = Some (ustr ''SELECT 1'') \<and>
   isspace (ustr ''SELECT 1'' ! 6) \<and>
   tokens_blocked (cleaned (ustr ''SELECT(1)'')) \<and>
   clean_sql (ustr ''SELECT(1)'') = cleaned (ustr ''SELECT(1)'')"
proof -
  have h1: "search_select (ustr ''x SELECT 1'') = Some (ustr ''SELECT 1'')"
    by (simp add: sanitizer_defs)
  have c: "cleaned (ustr ''SELECT(1)'') = ustr ''SELECT(1)''"
    by (simp add: sanitizer_defs)
  have h2: "tokens_blocked (cleaned (ustr ''SELECT(1)''))"
    unfolding c by (simp add: sanitizer_defs)
  note t = search_select_needs_space [of "ustr ''x SELECT 1''" "ustr ''SELECT 1''" "ustr ''SELECT(1)''"]
  from t h1 have "isspace (ustr ''SELECT 1'' ! 6)" by blast
  moreover from t h2 have "clean_sql (ustr ''SELECT(1)'') = cleaned (ustr ''SELECT(1)'')" by blast
  ultimately show ?thesis using h1 h2 by blast
qed

text \<open>
  Here too the condition is on the text after the first two lines. In the input
  \<open>x SELECT``` 1\<close> the only \<open>SELECT\<close> is followed by a backquote; once the fence is removed
  a space follows it, the search matches and the part before the token is cut off.
\<close>

theorem search_select_needs_space_counterexample:
  "tokens_blocked (ustr ''x SELECT``` 1'') \<and>
   search_select (cleaned (ustr ''x SELECT``` 1'')) = Some (ustr ''SELECT 1'') \<and>
   cleaned (ustr ''x SELECT``` 1'') = ustr ''x SELECT 1'' \<and>
   clean_sql (ustr ''x SELECT``` 1'') = ustr ''SELECT 1''"
  by (simp add: sanitizer_defs)

section \<open>The sanitizer: applying it twice\<close>

text \<open>
  C5, as amended. A sanitized text that does not begin with a label and contains neither a
  code fence nor \<open>sql\<close> is left unchanged by the sanitizer.
\<close>

theorem clean_sql_idempotent_without_markers:
  assumes "\<not> has_label (clean_sql x)"
    and "\<not> str_contains (ustr ''```'') (clean_sql x)"
    and "\<not> str_contains (ustr ''sql'') (clean_sql x)"
  shows "clean_sql (clean_sql x) = clean_sql x"
proof -
  have "cleaned (clean_sql x) = clean_sql x"
    using stripped_clean_sql assms by (rule cleaned_fixed)
  then show ?thesis
    using search_select_clean_sql [of x] by (auto simp: clean_sql_cases [of "clean_sql x"])
qed

text \<open>
  An instance: a labelled, fenced statement is sanitized once and for all.
\<close>

theorem clean_sql_idempotent_without_markers_witness:
  "clean_sql (ustr ''SQLQuery: ```sql SELECT * FROM Sheet1```'') = ustr ''SELECT * FROM Sheet1'' \<and>
   clean_sql (clean_sql (ustr ''SQLQuery: ```sql SELECT * FROM Sheet1```'')) =
     clean_sql (ustr ''SQLQuery: ```sql SELECT * FROM Sheet1```'')"
proof -
  let ?x = "ustr ''SQLQuery: ```sql SELECT * FROM Sheet1```''"
  have c: "clean_sql ?x = ustr ''SELECT * FROM Sheet1''"
    by (simp add: sanitizer_defs)
  have h1: "\<not> has_label (clean_sql ?x)" unfolding c by (simp add: sanitizer_defs)
  have h2: "\<not> str_contains (ustr ''```'') (clean_sql ?x)" unfolding c by (simp add: sanitizer_defs)
  have h3: "\<not> str_contains (ustr ''sql'') (clean_sql ?x)" unfolding c by (simp add: sanitizer_defs)
  from c clean_sql_idempotent_without_markers [OF h1 h2 h3] show ?thesis by (intro conjI)
qed

text \<open>
  Without the condition the second pass can remove more: deleting \<open>sql\<close> from
  \<open>ssqlqlite_master\<close> leaves \<open>sqlite_master\<close>, from which the second pass deletes \<open>sql\<close>
  again.
\<close>

theorem clean_sql_idempotent_counterexample:
  "clean_sql (ustr ''SELECT * FROM ssqlqlite_master'') = ustr ''SELECT * FROM sqlite_master'' \<and>
   clean_sql (clean_sql (ustr ''SELECT * FROM ssqlqlite_master'')) = ustr ''SELECT * FROM ite_master'' \<and>
   clean_sql (clean_sql (ustr ''SELECT * FROM ssqlqlite_master'')) \<noteq>
     clean_sql (ustr ''SELECT * FROM ssqlqlite_master'')"
proof -
  have a: "clean_sql (ustr ''SELECT * FROM ssqlqlite_master'') = ustr ''SELECT * FROM sqlite_master''"
    by (simp add: sanitizer_defs)
  have b: "clean_sql (ustr ''SELECT * FROM sqlite_master'') = ustr ''SELECT * FROM ite_master''"
    by (simp add: sanitizer_defs)
  have "ustr ''SELECT * FROM ite_master'' \<noteq> ustr ''SELECT * FROM sqlite_master''"
    by (simp add: ustr_def)
  with a b show ?thesis by simp
qed

section \<open>The sanitizer: the removal of the language tag\<close>



section \<open>The pipeline: failures\<close>

text \<open>
  The stage recorded beside the tuple is the stage that failed: a handler only answers the
  failure of its stage, and a failing stage is answered by its own handler, which returns
  its tuple when its \<open>print\<close> returns.
\<close>

lemma staged_handler:
  assumes "query_analyzer_staged ext question api_key = Inr (Some s, msg, sql, table)"
  shows "\<exists>e. fails_at ext question api_key s e"
  using assms
  by (auto simp: query_analyzer_staged_def print_and_return_def Let_def
      split: sum.splits prod.splits pyobj.splits)

lemma staged_failure:
  assumes "fails_at ext question api_key s e"
    and "\<forall>sql. (s = Execution \<longrightarrow> sanitized ext question api_key sql) \<longrightarrow>
           print ext (handler_line s (error_msg s e sql)) = Inr ()"
  shows "\<exists>msg sql table.
           query_analyzer_staged ext question api_key = Inr (Some s, msg, sql, table) \<and>
           prefix (stage_prefix s @ message e) msg"
proof (cases s)
  case Connection
  with assms show ?thesis
    by (auto simp: query_analyzer_staged_def print_and_return_def Let_def)
next
  case ModelInit
  with assms show ?thesis
    by (auto simp: query_analyzer_staged_def print_and_return_def Let_def)
next
  case Generation
  with assms show ?thesis
    by (auto simp: query_analyzer_staged_def print_and_return_def Let_def)
next
  case Execution
  with assms(1) obtain engine db llm custom_prompt sql_chain raw_sql where
    r: "connect ext = Inr (engine, db)"
      "GoogleGenerativeAI ext api_key (ustr ''gemini-2.0-flash'') = Inr llm"
      "PromptTemplate ext SqlPrompt = Inr custom_prompt"
      "from_llm ext llm db custom_prompt = Inr sql_chain"
      "print ext (question_line question) = Inr ()"
      "generate ext sql_chain question = Inr (PyStr raw_sql)"
      "print ext (cleaned_line (clean_sql raw_sql)) = Inr ()"
      "execute ext (clean_sql raw_sql) engine = Inl e"
    by auto
  then have "sanitized ext question api_key (clean_sql raw_sql)"
    unfolding sanitized_def by blast
  with assms(2) Execution
  have "print ext (warning_line (error_msg Execution e (clean_sql raw_sql))) = Inr ()"
    by simp
  with r Execution show ?thesis
    by (simp add: query_analyzer_staged_def print_and_return_def Let_def)
next
  case Summarization
  with assms show ?thesis
    by (auto simp: query_analyzer_staged_def print_and_return_def Let_def)
qed

lemma staged_returns:
  assumes "\<forall>t. \<exists>p. PromptTemplate ext t = Inr p"
    and "\<forall>llm db p. \<exists>c. from_llm ext llm db p = Inr c"
    and "\<forall>c v. generate ext c question = Inr v \<longrightarrow> (\<exists>raw. v = PyStr raw)"
    and "print ext (question_line question) = Inr ()"
    and "\<forall>sql. sanitized ext question api_key sql \<longrightarrow> print ext (cleaned_line sql) = Inr ()"
    and "\<forall>s e sql. fails_at ext question api_key s e \<longrightarrow>
           (s = Execution \<longrightarrow> sanitized ext question api_key sql) \<longrightarrow>
           print ext (handler_line s (error_msg s e sql)) = Inr ()"
  shows "\<exists>r. query_analyzer_staged ext question api_key = Inr r"
proof -
  have h: "\<exists>r. query_analyzer_staged ext question api_key = Inr r"
    if "fails_at ext question api_key s e" for s e
  proof -
    from assms(6) that
    have "\<forall>sql. (s = Execution \<longrightarrow> sanitized ext question api_key sql) \<longrightarrow>
           print ext (handler_line s (error_msg s e sql)) = Inr ()"
      by blast
    with that show ?thesis using staged_failure by blast
  qed
  show ?thesis
  proof (cases "connect ext")
    case (Inl e)
    then have "fails_at ext question api_key Connection e" by simp
    then show ?thesis by (rule h)
  next
    case (Inr ed)
    obtain engine db where ed: "ed = (engine, db)" by (cases ed)
    note c = Inr [unfolded ed]
    show ?thesis
    proof (cases "GoogleGenerativeAI ext api_key (ustr ''gemini-2.0-flash'')")
      case (Inl e)
      with c have "fails_at ext question api_key ModelInit e" by simp
      then show ?thesis by (rule h)
    next
      case llm: (Inr llm)
      from assms(1) obtain cp where cp: "PromptTemplate ext SqlPrompt = Inr cp" by blast
      from assms(1) obtain sp where sp: "PromptTemplate ext SummaryPrompt = Inr sp" by blast
      from assms(2) obtain ch where ch: "from_llm ext llm db cp = Inr ch" by blast
      note q = assms(4)
      show ?thesis
      proof (cases "generate ext ch question")
        case (Inl e)
        with c llm cp ch q have "fails_at ext question api_key Generation e" by auto
        then show ?thesis by (rule h)
      next
        case g: (Inr v)
        with assms(3) obtain raw where v: "v = PyStr raw" by blast
        note g' = g [unfolded v]
        from c llm cp ch q g' have "sanitized ext question api_key (clean_sql raw)"
          unfolding sanitized_def by blast
        with assms(5) have p: "print ext (cleaned_line (clean_sql raw)) = Inr ()" by blast
        show ?thesis
        proof (cases "execute ext (clean_sql raw) engine")
          case (Inl e)
          with c llm cp ch q g' p have "fails_at ext question api_key Execution e" by auto
          then show ?thesis by (rule h)
        next
          case df: (Inr df)
          show ?thesis
          proof (cases "summarize ext llm sp question df")
            case (Inl e)
            with c llm cp ch q g' p df sp have "fails_at ext question api_key Summarization e"
              by auto
            then show ?thesis by (rule h)
          next
            case (Inr a)
            with c llm cp ch q g' p df sp show ?thesis
              by (simp add: query_analyzer_staged_def Let_def)
          qed
        qed
      qed
    qed
  qed
qed

text \<open>
  A \<open>print\<close> inside the body of a \<open>try\<close> is caught like any other failure of the stage:
  when the chain answers with a text that the standard output cannot encode, the handler of
  the generation answers, although the chain returned.
\<close>

lemma generation_print_failure_example:
  "query_analyzer (all_ok [0x53, 0xD800]) (ustr ''One?'') (ustr ''key'') =
     Inr (ustr ''Error during SQL generation: surrogates not allowed'', None, None)"
  by (simp add: pipeline_defs line_defs ustr_def)







text \<open>
  C2, as amended. A tuple returned by a handler carries the sanitized text in its second
  place on two paths only, the failure of the execution and the failure of the
  summarization (and that stage did fail); the failure of the execution is the one of the
  two whose third place is \<open>None\<close>.
\<close>

theorem sql_kept_on_two_failure_paths:
  assumes "query_analyzer_staged ext question api_key = Inr (Some st, msg, Some sql, table)"
  shows "(\<exists>e. fails_at ext question api_key st e) \<and>
         (st = Execution \<or> st = Summarization) \<and> (st = Execution \<longleftrightarrow> table = None)"
proof -
  have "\<exists>e. fails_at ext question api_key st e" using assms by (rule staged_handler)
  moreover have "(st = Execution \<or> st = Summarization) \<and> (st = Execution \<longleftrightarrow> table = None)"
    using assms
    by (auto simp: query_analyzer_staged_def print_and_return_def Let_def
        split: sum.splits prod.splits pyobj.splits)
  ultimately show ?thesis by blast
qed

text \<open>
  An instance: the failed execution of the example above.
\<close>

theorem sql_kept_on_two_failure_paths_witness:
  "\<exists>st msg sql table.
     query_analyzer_staged
       ((all_ok (ustr ''SELECT * FROM Sheet3''))
          \<lparr>read_sql_query := (\<lambda>sql engine. Inl (Exception (ustr ''no such table: Sheet3'')))\<rparr>)
       (ustr ''How many rows?'') (ustr ''key'') = Inr (Some st, msg, Some sql, table) \<and>
     (st = Execution \<or> st = Summarization) \<and> (st = Execution \<longleftrightarrow> table = None)"
proof -
  have c: "clean_sql (ustr ''SELECT * FROM Sheet3'') = ustr ''SELECT * FROM Sheet3''"
    by (simp add: sanitizer_defs)
  note c' = c [unfolded ustr_def, simplified]
  have h: "query_analyzer_staged
     ((all_ok (ustr ''SELECT * FROM Sheet3''))
        \<lparr>read_sql_query := (\<lambda>sql engine. Inl (Exception (ustr ''no such table: Sheet3'')))\<rparr>)
     (ustr ''How many rows?'') (ustr ''key'') =
   Inr (Some Execution,
        ustr ''SQL Execution Error: no such table: Sheet3'' @ 0x0A #
          ustr ''Attempted Query: SELECT * FROM Sheet3'',
        Some (ustr ''SELECT * FROM Sheet3''), None)"
    by (simp add: pipeline_defs line_defs ustr_def c')
  from h sql_kept_on_two_failure_paths [OF h] show ?thesis by blast
qed

text \<open>
  The failure of the execution is not the only failure that keeps the sanitized text: when
  the summarization fails, the second place holds it as well.
\<close>

theorem only_execution_keeps_sql_counterexample:
  "query_analyzer_staged
     ((all_ok (ustr ''SELECT 1''))\<lparr>llm_invoke := (\<lambda>llm p. Inl (Exception (ustr ''quota exceeded'')))\<rparr>)
     (ustr ''One?'') (ustr ''key'') =
   Inr (Some Summarization, ustr ''Error during summarization: quota exceeded'',
        Some (ustr ''SELECT 1''), Some (ustr ''SELECT 1'')) \<and>
   fails_at
     ((all_ok (ustr ''SELECT 1''))\<lparr>llm_invoke := (\<lambda>llm p. Inl (Exception (ustr ''quota exceeded'')))\<rparr>)
     (ustr ''One?'') (ustr ''key'') Summarization (Exception (ustr ''quota exceeded'')) \<and>
   Summarization \<noteq> Execution"
proof -
  have c: "clean_sql (ustr ''SELECT 1'') = ustr ''SELECT 1''"
    by (simp add: sanitizer_defs)
  note c' = c [unfolded ustr_def, simplified]
  show ?thesis by (simp add: pipeline_defs line_defs ustr_def c')
qed

text \<open>
  C3, as amended. When the statements outside the bodies of the \<open>try\<close> blocks do not raise
  (the two prompt templates and the chain are built, the question is printed, the chain
  returns a text, the sanitized text is printed, and the handler of a failing stage prints
  its message), \<open>query_analyzer\<close> raises nothing to its caller: it returns a tuple; the tuple
  comes from the handler of a stage exactly when the body of that stage's \<open>try\<close> raised; and
  the first place then holds a message that is not empty and starts with the fixed text of
  the stage followed by the text of the exception.
\<close>

theorem guarded_failures_become_messages:
  assumes "\<forall>t. \<exists>p. PromptTemplate ext t = Inr p"
    and "\<forall>llm db p. \<exists>c. from_llm ext llm db p = Inr c"
    and "\<forall>c v. generate ext c question = Inr v \<longrightarrow> (\<exists>raw. v = PyStr raw)"
    and "print ext (question_line question) = Inr ()"
    and "\<forall>sql. sanitized ext question api_key sql \<longrightarrow> print ext (cleaned_line sql) = Inr ()"
    and "\<forall>s e sql. fails_at ext question api_key s e \<longrightarrow>
           (s = Execution \<longrightarrow> sanitized ext question api_key sql) \<longrightarrow>
           print ext (handler_line s (error_msg s e sql)) = Inr ()"
  shows "\<exists>st msg sql table.
           query_analyzer ext question api_key = Inr (msg, sql, table) \<and>
           query_analyzer_staged ext question api_key = Inr (st, msg, sql, table) \<and>
           (\<forall>s. st = Some s \<longleftrightarrow> (\<exists>e. fails_at ext question api_key s e)) \<and>
           (\<forall>s e. fails_at ext question api_key s e \<longrightarrow>
              prefix (stage_prefix s @ message e) msg \<and> msg \<noteq> [])"
proof -
  from staged_returns [OF assms] obtain st msg sql table
    where r: "query_analyzer_staged ext question api_key = Inr (st, msg, sql, table)"
    by (metis prod_cases4)
  have ne: "stage_prefix s \<noteq> []" for s by (cases s) (simp_all add: ustr_def)
  have f: "\<exists>msg' sql' table'.
             query_analyzer_staged ext question api_key = Inr (Some s, msg', sql', table') \<and>
             prefix (stage_prefix s @ message e) msg'"
    if "fails_at ext question api_key s e" for s e
  proof -
    from assms(6) that
    have "\<forall>sql. (s = Execution \<longrightarrow> sanitized ext question api_key sql) \<longrightarrow>
           print ext (handler_line s (error_msg s e sql)) = Inr ()"
      by blast
    with that show ?thesis by (rule staged_failure)
  qed
  have a: "st = Some s \<longleftrightarrow> (\<exists>e. fails_at ext question api_key s e)" for s
  proof
    assume "st = Some s"
    with r show "\<exists>e. fails_at ext question api_key s e" using staged_handler by blast
  next
    assume "\<exists>e. fails_at ext question api_key s e"
    then obtain e where "fails_at ext question api_key s e" ..
    from f [OF this] r show "st = Some s" by auto
  qed
  have b: "prefix (stage_prefix s @ message e) msg \<and> msg \<noteq> []"
    if "fails_at ext question api_key s e" for s e
  proof -
    from f [OF that] r have p: "prefix (stage_prefix s @ message e) msg" by auto
    with ne [of s] show ?thesis by auto
  qed
  from r have "query_analyzer ext question api_key = Inr (msg, sql, table)"
    by (simp add: query_analyzer_def)
  with r a b show ?thesis by blast
qed

text \<open>
  An instance: the execution fails, nothing outside the bodies of the \<open>try\<close> blocks does.
\<close>

theorem guarded_failures_become_messages_witness:
  "\<exists>msg sql table.
      query_analyzer
        ((all_ok (ustr ''SELECT * FROM Sheet3''))
           \<lparr>read_sql_query := (\<lambda>sql engine. Inl (Exception (ustr ''no such table: Sheet3'')))\<rparr>)
        (ustr ''How many rows?'') (ustr ''key'') = Inr (msg, sql, table) \<and>
      prefix (ustr ''SQL Execution Error: no such table: Sheet3'') msg"
proof -
  let ?ext = "(all_ok (ustr ''SELECT * FROM Sheet3''))
        \<lparr>read_sql_query := (\<lambda>sql engine. Inl (Exception (ustr ''no such table: Sheet3'')))\<rparr>"
  let ?q = "ustr ''How many rows?''"
  let ?k = "ustr ''key''"
  have c: "clean_sql (ustr ''SELECT * FROM Sheet3'') = ustr ''SELECT * FROM Sheet3''"
    by (simp add: sanitizer_defs)
  note c' = c [unfolded ustr_def, simplified]
  have h1: "\<forall>t. \<exists>p. PromptTemplate ?ext t = Inr p"
    by (simp add: all_ok_def)
  have h2: "\<forall>llm db p. \<exists>c. from_llm ?ext llm db p = Inr c"
    by (simp add: all_ok_def)
  have h3: "\<forall>c v. generate ?ext c ?q = Inr v \<longrightarrow> (\<exists>raw. v = PyStr raw)"
    by (simp add: pipeline_defs line_defs ustr_def)
  have h4: "print ?ext (question_line ?q) = Inr ()"
    by (simp add: pipeline_defs line_defs ustr_def)
  have h5: "\<forall>sql. sanitized ?ext ?q ?k sql \<longrightarrow> print ?ext (cleaned_line sql) = Inr ()"
    by (simp add: sanitized_def pipeline_defs line_defs ustr_def c')
  have h6: "\<forall>s e sql. fails_at ?ext ?q ?k s e \<longrightarrow>
           (s = Execution \<longrightarrow> sanitized ?ext ?q ?k sql) \<longrightarrow>
           print ?ext (handler_line s (error_msg s e sql)) = Inr ()"
  proof (intro allI impI)
    fix s e sql
    assume "fails_at ?ext ?q ?k s e" and "s = Execution \<longrightarrow> sanitized ?ext ?q ?k sql"
    then show "print ?ext (handler_line s (error_msg s e sql)) = Inr ()"
      by (cases s) (auto simp: sanitized_def pipeline_defs line_defs ustr_def c')
  qed
  have f: "fails_at ?ext ?q ?k Execution (Exception (ustr ''no such table: Sheet3''))"
    by (simp add: pipeline_defs line_defs ustr_def c')
  have p: "stage_prefix Execution @ message (Exception (ustr ''no such table: Sheet3'')) =
             ustr ''SQL Execution Error: no such table: Sheet3''"
    by (simp add: ustr_def)
  from guarded_failures_become_messages [OF h1 h2 h3 h4 h5 h6] f
  show ?thesis unfolding p [symmetric] by blast
qed

text \<open>
  Outside the bodies of the \<open>try\<close> blocks nothing is caught: when the construction of the
  chain raises, or when the standard output cannot encode the symbol in front of the
  question, the exception reaches the caller.
\<close>

theorem never_raises_counterexample:
  "query_analyzer
     ((all_ok (ustr ''SELECT 1''))
        \<lparr>from_llm := (\<lambda>llm db prompt. Inl (Exception (ustr ''validation error'')))\<rparr>)
     (ustr ''One?'') (ustr ''key'') =
   Inl (Exception (ustr ''validation error'')) \<and>
   query_analyzer ((all_ok (ustr ''SELECT 1''))\<lparr>print := latin1_stdout\<rparr>)
     (ustr ''One?'') (ustr ''key'') =
   Inl (Exception (ustr ''ordinal not in range(256)''))"
  by (simp add: pipeline_defs line_defs)

end
